theory Spec2Isabelle
  imports Main
begin

section \<open>Data model\<close>

text \<open>
  An entry of a backend's \<open>history\<close> array is either the string \<open>" "\<close> that
  \<open>loadServers\<close> fills it with, or a number: the response time of a successful probe,
  or the number 0 pushed by a failed one.
\<close>

datatype hist = Blank | Ms int

text \<open>
  An element of \<open>servers\<close>: what the element of servers.json it was built from
  has under \<open>url\<close> and \<open>region\<close>, and the runtime fields \<open>loadServers\<close>
  adds. \<open>null\<close> and \<open>undefined\<close> are \<open>None\<close>: \<open>url\<close> is \<open>None\<close> when
  the element brought no address.
\<close>

record backend =
  url :: "string option"
  region :: "string option"
  healthy :: bool
  responseTime :: "int option"
  lastCheck :: "string option"
  uptime :: nat
  downtime :: nat
  history :: "hist list"

text \<open>
  An element of the array in servers.json, as \<open>loadServers\<close> sees it: the strings it
  has under \<open>url\<close> and \<open>region\<close>. The spread \<open>...s\<close> copies whatever the
  element has, so an element that is not an object (\<open>1\<close>, \<open>null\<close>, \<open>"x"\<close>) or an
  object without an address gives \<open>None\<close>. A descriptor is an element with an address.
\<close>

record element =
  e_url :: "string option"
  e_region :: "string option"

definition is_descriptor :: "element \<Rightarrow> bool" where
  "is_descriptor s = (e_url s \<noteq> None)"

text \<open>
  The module-level variables: \<open>let servers\<close>, \<open>let index = 0\<close> and
  \<open>const stickyMap = new Map()\<close>.
\<close>

record lb_state =
  servers :: "backend list"
  index :: nat
  stickyMap :: "string \<rightharpoonup> string"

text \<open>
  The exceptions the modelled code can raise: JavaScript's TypeError and SyntaxError,
  the error of \<open>fs.readFileSync\<close> on a file it cannot read, and the error of
  \<open>proxy.web\<close> when it is given no target.
\<close>

datatype exn = TypeError | SyntaxError | FsError | NoTargetError

section \<open>Loading and reloading servers.json\<close>

text \<open>
  What \<open>JSON.parse(fs.readFileSync("./servers.json", "utf8"))\<close> can give:
  the file cannot be read (\<open>readFileSync\<close> throws), the text is not JSON
  (\<open>JSON.parse\<close> throws a SyntaxError), it is JSON without a \<open>map\<close> method such
  as an object or a number (\<open>data.map\<close> throws a TypeError), or it is an array,
  of any elements: \<open>loadServers\<close> does not look at them.
\<close>

datatype file_content = Unreadable | NotJson | NotArray | JsonArray "element list"

definition initial_history :: "hist list" where
  "initial_history = replicate 20 Blank"

definition init_backend :: "element \<Rightarrow> backend" where
  "init_backend s =
     \<lparr>url = e_url s, region = e_region s, healthy = False, responseTime = None,
      lastCheck = None, uptime = 0, downtime = 0, history = initial_history\<rparr>"

definition loadServers :: "file_content \<Rightarrow> exn + backend list" where
  "loadServers file =
     (case file of
        Unreadable \<Rightarrow> Inl FsError
      | NotJson \<Rightarrow> Inl SyntaxError
      | NotArray \<Rightarrow> Inl TypeError
      | JsonArray data \<Rightarrow> Inr (map init_backend data))"

text \<open>
  The \<open>fs.watch\<close> callback, \<open>servers = loadServers()\<close>: the assignment happens only
  when \<open>loadServers\<close> returns. The callback has no handler, so an exception leaves it
  uncaught; the result carries the exception, if any, and the module state as the
  callback leaves it.
\<close>

definition reload :: "lb_state \<Rightarrow> file_content \<Rightarrow> exn option \<times> lb_state" where
  "reload st file =
     (case loadServers file of
        Inl e \<Rightarrow> (Some e, st)
      | Inr new \<Rightarrow> (None, st\<lparr>servers := new\<rparr>))"

text \<open>
  A malformed backend list: anything but an array all of whose elements are
  descriptors.
\<close>

definition malformed :: "file_content \<Rightarrow> bool" where
  "malformed file =
     (case file of
        Unreadable \<Rightarrow> True
      | NotJson \<Rightarrow> True
      | NotArray \<Rightarrow> True
      | JsonArray data \<Rightarrow> \<not> list_all is_descriptor data)"

section \<open>Sticky sessions and round-robin selection\<close>

definition getStickyServer :: "lb_state \<Rightarrow> string \<Rightarrow> string option" where
  "getStickyServer st clientId =
     (case stickyMap st clientId of
        None \<Rightarrow> None
      | Some u \<Rightarrow>
          (case find (\<lambda>s. url s = Some u \<and> healthy s) (servers st) of
             None \<Rightarrow> None
           | Some alive \<Rightarrow> url alive))"

text \<open>
  \<open>chooseServer\<close> reads \<open>alive[index]\<close> before it touches \<open>index\<close>. When
  \<open>index\<close> is not a position of \<open>alive\<close> the read gives \<open>undefined\<close>, and
  \<open>undefined.url\<close> throws a TypeError with \<open>index\<close> left as it was.
  The result \<open>None\<close> is \<open>null\<close> (no backend is healthy) or \<open>undefined\<close>
  (the backend selected has no address).
\<close>

definition chooseServer :: "lb_state \<Rightarrow> (exn + string option) \<times> lb_state" where
  "chooseServer st =
     (let alive = filter healthy (servers st) in
      if alive = [] then (Inr None, st)
      else if index st < length alive
        then (Inr (url (alive ! index st)),
              st\<lparr>index := (index st + 1) mod length alive\<rparr>)
        else (Inl TypeError, st))"

text \<open>
  JavaScript's \<open>!target\<close> for a value that is a string, \<open>null\<close> or
  \<open>undefined\<close>.
\<close>

definition falsy :: "string option \<Rightarrow> bool" where
  "falsy target = (target = None \<or> target = Some [])"

text \<open>
  The target resolution at the head of the request handler:
  \<open>let target = getStickyServer(clientId); if (!target) { target = chooseServer();
  if (target) stickyMap.set(clientId, target); }\<close>.
\<close>

definition resolveTarget :: "lb_state \<Rightarrow> string \<Rightarrow> (exn + string option) \<times> lb_state" where
  "resolveTarget st clientId =
     (let target = getStickyServer st clientId in
      if \<not> falsy target then (Inr target, st)
      else
        (case chooseServer st of
           (Inl e, st') \<Rightarrow> (Inl e, st')
         | (Inr target', st') \<Rightarrow>
             (Inr target',
              if \<not> falsy target'
              then st'\<lparr>stickyMap := (stickyMap st')(clientId \<mapsto> the target')\<rparr>
              else st')))"

section \<open>Dispatch with one retry\<close>

text \<open>
  How a request ends: the handler answers with a status of its own (503 or 500), the
  proxy relays the backend's answer, or an exception leaves the handler's code.
\<close>

datatype outcome = Responded nat | Proxied | Uncaught exn

text \<open>
  \<open>proxy.web(req, res, options, callback)\<close> is the forwarding capability: it calls
  the callback when forwarding fails. \<open>fwd retry target\<close> tells whether the forward
  issued by \<open>send(retry)\<close> to \<open>target\<close> succeeds. The list records the target of
  every forward issued, in order. Given a target that is \<open>null\<close> or \<open>undefined\<close>,
  \<open>proxy.web\<close> forwards nothing and raises (it emits \<open>error\<close>, "Must provide a
  proper URL as target", on a proxy that has no listener for it): no answer is sent.
\<close>

type_synonym forwarder = "bool \<Rightarrow> string option \<Rightarrow> bool"

function send ::
  "forwarder \<Rightarrow> bool \<Rightarrow> string option \<Rightarrow> lb_state \<Rightarrow> string option list
     \<Rightarrow> outcome \<times> string option list \<times> lb_state" where
  "send fwd retry target st issued =
     (if target = None then (Uncaught NoTargetError, issued, st)
      else
        (let issued' = issued @ [target] in
         if fwd retry target then (Proxied, issued', st)
         else if \<not> retry then
           (case chooseServer st of
              (Inl e, st') \<Rightarrow> (Uncaught e, issued', st')
            | (Inr target', st') \<Rightarrow> send fwd True target' st' issued')
         else (Responded 500, issued', st)))"
  by pat_completeness auto
termination
  by (relation "measure (\<lambda>(fwd, retry, target, st, issued). if retry then 0 else 1)") auto

text \<open>The request handler (the catch-all \<open>app.use\<close>, \<open>http.createServer\<close> in index.js).\<close>

definition dispatch ::
  "forwarder \<Rightarrow> lb_state \<Rightarrow> string \<Rightarrow> outcome \<times> string option list \<times> lb_state" where
  "dispatch fwd st clientId =
     (case resolveTarget st clientId of
        (Inl e, st') \<Rightarrow> (Uncaught e, [], st')
      | (Inr target, st') \<Rightarrow>
          if falsy target then (Responded 503, [], st')
          else send fwd False target st' [])"

section \<open>Health probing\<close>

text \<open>
  The repository has \<open>checkHealth\<close> in two forms. The later one probes
  \<open>/healthz\<close> and looks at the status code: \<open>on_response\<close>, \<open>on_error\<close> and
  \<open>probe_done\<close> below. The earlier one, in index.js, probes the address itself and
  its response callback takes no argument: \<open>on_response_index_js\<close> and
  \<open>probe_done_index_js\<close>. The \<open>error\<close> callback is the same in both.

  One backend's probe ends in the response callback, with the response's status code,
  or in the \<open>error\<close> callback. \<open>start\<close> and \<open>now\<close> are the two readings of
  \<open>Date.now()\<close>, \<open>stamp\<close> is \<open>new Date().toLocaleTimeString()\<close>.
\<close>

datatype probe_result = Response int | TransportError

definition shift_over_20 :: "hist list \<Rightarrow> hist list" where
  "shift_over_20 h = (if length h > 20 then tl h else h)"

definition on_response :: "int \<Rightarrow> int \<Rightarrow> string \<Rightarrow> int \<Rightarrow> backend \<Rightarrow> backend" where
  "on_response start now stamp statusCode s =
     (let s1 =
        (if statusCode \<ge> 200 \<and> statusCode < 300
         then s\<lparr>healthy := True, responseTime := Some (now - start),
                uptime := uptime s + 1, history := history s @ [Ms (now - start)]\<rparr>
         else s\<lparr>healthy := False, responseTime := None,
                downtime := downtime s + 1, history := history s @ [Ms 0]\<rparr>);
          s2 = s1\<lparr>lastCheck := Some stamp\<rparr>
      in s2\<lparr>history := shift_over_20 (history s2)\<rparr>)"

definition on_error :: "string \<Rightarrow> backend \<Rightarrow> backend" where
  "on_error stamp s =
     (let s1 = s\<lparr>healthy := False, responseTime := None, lastCheck := Some stamp,
                 downtime := downtime s + 1, history := history s @ [Ms 0]\<rparr>
      in s1\<lparr>history := shift_over_20 (history s1)\<rparr>)"

definition probe_done :: "int \<Rightarrow> int \<Rightarrow> string \<Rightarrow> probe_result \<Rightarrow> backend \<Rightarrow> backend" where
  "probe_done start now stamp r s =
     (case r of
        Response statusCode \<Rightarrow> on_response start now stamp statusCode s
      | TransportError \<Rightarrow> on_error stamp s)"

text \<open>
  index.js: \<open>client.get(s.url, () => { s.healthy = true; ... })\<close>. The callback runs
  on every response, whatever its status.
\<close>

definition on_response_index_js :: "int \<Rightarrow> int \<Rightarrow> string \<Rightarrow> backend \<Rightarrow> backend" where
  "on_response_index_js start now stamp s =
     (let s1 = s\<lparr>healthy := True, responseTime := Some (now - start),
                 lastCheck := Some stamp, uptime := uptime s + 1,
                 history := history s @ [Ms (now - start)]\<rparr>
      in s1\<lparr>history := shift_over_20 (history s1)\<rparr>)"

definition probe_done_index_js ::
  "int \<Rightarrow> int \<Rightarrow> string \<Rightarrow> probe_result \<Rightarrow> backend \<Rightarrow> backend" where
  "probe_done_index_js start now stamp r s =
     (case r of
        Response statusCode \<Rightarrow> on_response_index_js start now stamp s
      | TransportError \<Rightarrow> on_error stamp s)"

text \<open>A completed probe with its clock readings.\<close>

record probe =
  p_start :: int
  p_now :: int
  p_stamp :: string
  p_result :: probe_result

definition apply_probe :: "backend \<Rightarrow> probe \<Rightarrow> backend" where
  "apply_probe s p = probe_done (p_start p) (p_now p) (p_stamp p) (p_result p) s"

text \<open>The entry a completed probe pushes onto \<open>history\<close>.\<close>

definition pushed :: "probe \<Rightarrow> hist" where
  "pushed p =
     (case p_result p of
        Response statusCode \<Rightarrow>
          if statusCode \<ge> 200 \<and> statusCode < 300 then Ms (p_now p - p_start p) else Ms 0
      | TransportError \<Rightarrow> Ms 0)"

text \<open>
  \<open>checkHealth\<close> (the later form): for each element of \<open>servers\<close>,
  \<open>new URL(s.url)\<close> and then the probe. \<open>parses u\<close> tells whether \<open>new URL\<close>
  accepts \<open>u\<close>; where it throws, that backend's promise rejects, no probe is issued
  for it and the backend is not touched, and the promise \<open>checkHealth\<close> returns
  rejects with the TypeError. \<open>ps i\<close> is how the probe of the element at position
  \<open>i\<close> ends.
\<close>

definition checkHealth ::
  "(string option \<Rightarrow> bool) \<Rightarrow> (nat \<Rightarrow> probe) \<Rightarrow> lb_state \<Rightarrow> exn option \<times> lb_state" where
  "checkHealth parses ps st =
     (if list_all (\<lambda>s. parses (url s)) (servers st) then None else Some TypeError,
      st\<lparr>servers :=
           map (\<lambda>(i, s). if parses (url s) then apply_probe s (ps i) else s)
               (enumerate 0 (servers st))\<rparr>)"

section \<open>Consecutive selections\<close>

text \<open>
  \<open>n\<close> calls of \<open>chooseServer\<close> one after the other, with nothing else touching the
  state in between; the results are listed in call order.
\<close>

fun chooseServer_n :: "nat \<Rightarrow> lb_state \<Rightarrow> (exn + string option) list \<times> lb_state" where
  "chooseServer_n 0 st = ([], st)"
| "chooseServer_n (Suc n) st =
     (case chooseServer st of
        (r, st') \<Rightarrow> (case chooseServer_n n st' of (rs, st'') \<Rightarrow> (r # rs, st'')))"

section \<open>Example states\<close>

definition mk_backend :: "string \<Rightarrow> bool \<Rightarrow> backend" where
  "mk_backend u h =
     \<lparr>url = Some u, region = None, healthy = h, responseTime = None,
      lastCheck = None, uptime = 0, downtime = 0, history = initial_history\<rparr>"

text \<open>
  Two backends of which the second has gone down, after one selection made while
  both were up: the cursor is 1 and the healthy subset has one element.
\<close>

definition shrunk_state :: lb_state where
  "shrunk_state =
     \<lparr>servers = [mk_backend ''http://a'' True, mk_backend ''http://b'' False],
      index = 1, stickyMap = Map.empty\<rparr>"

text \<open>The same registry and cursor, with client F bound to the backend that is still up.\<close>

definition sticky_shrunk_state :: lb_state where
  "sticky_shrunk_state =
     \<lparr>servers = [mk_backend ''http://a'' True, mk_backend ''http://b'' False],
      index = 1, stickyMap = [''F'' \<mapsto> ''http://a'']\<rparr>"

text \<open>
  Three backends, all up while two clients were served (the second, F, got b and the
  cursor moved on to 2); b and c have since gone down.
\<close>

definition sticky_lost_state :: lb_state where
  "sticky_lost_state =
     \<lparr>servers = [mk_backend ''http://a'' True, mk_backend ''http://b'' False,
                 mk_backend ''http://c'' False],
      index = 2, stickyMap = [''F'' \<mapsto> ''http://b'']\<rparr>"

definition all_down_state :: lb_state where
  "all_down_state =
     \<lparr>servers = [mk_backend ''http://a'' False, mk_backend ''http://b'' False],
      index = 1, stickyMap = [''F'' \<mapsto> ''http://a'']\<rparr>"

definition three_up_state :: lb_state where
  "three_up_state =
     \<lparr>servers = [mk_backend ''A'' True, mk_backend ''B'' True, mk_backend ''C'' True],
      index = 0, stickyMap = Map.empty\<rparr>"

definition two_up_state :: lb_state where
  "two_up_state =
     \<lparr>servers = [mk_backend ''http://a'' True, mk_backend ''http://b'' True],
      index = 0, stickyMap = Map.empty\<rparr>"

text \<open>Forwarders: every forward fails; only the first forward fails.\<close>

definition always_fails :: forwarder where
  "always_fails retry target = False"

definition fails_once :: forwarder where
  "fails_once retry target = retry"

definition always_ok :: forwarder where
  "always_ok retry target = True"

text \<open>Probes: a 200 after 12 ms, a 503 after 7 ms, a transport error.\<close>

definition probe_ok :: probe where
  "probe_ok = \<lparr>p_start = 1000, p_now = 1012, p_stamp = ''10:00:00'', p_result = Response 200\<rparr>"

definition probe_503 :: probe where
  "probe_503 = \<lparr>p_start = 6000, p_now = 6007, p_stamp = ''10:00:05'', p_result = Response 503\<rparr>"

definition probe_err :: probe where
  "probe_err = \<lparr>p_start = 11000, p_now = 11003, p_stamp = ''10:00:10'', p_result = TransportError\<rparr>"

text \<open>A probe cycle in which the first backend answers 200 and all others fail.\<close>

definition a_up_rest_down :: "nat \<Rightarrow> probe" where
  "a_up_rest_down i = (if i = 0 then probe_ok else probe_err)"

definition descr_a :: element where
  "descr_a = \<lparr>e_url = Some ''http://a'', e_region = Some ''eu''\<rparr>"

text \<open>What an element such as \<open>1\<close>, \<open>null\<close> or \<open>"x"\<close> amounts to.\<close>

definition no_descriptor :: element where
  "no_descriptor = \<lparr>e_url = None, e_region = None\<rparr>"

text \<open>
  A stand-in for \<open>new URL\<close> on the example addresses: it accepts what starts with
  \<open>http://\<close> and rejects a missing address.
\<close>

definition parses_http :: "string option \<Rightarrow> bool" where
  "parses_http u = (case u of None \<Rightarrow> False | Some a \<Rightarrow> take 7 a = ''http://'' \<and> 7 < length a)"

text \<open>Three backends with URL addresses, all up.\<close>

definition three_url_state :: lb_state where
  "three_url_state =
     \<lparr>servers = [mk_backend ''http://a'' True, mk_backend ''http://b'' True,
                 mk_backend ''http://c'' True],
      index = 0, stickyMap = Map.empty\<rparr>"

text \<open>A registry whose one backend has been probed three times and is up.\<close>

definition busy_state :: lb_state where
  "busy_state =
     \<lparr>servers = [foldl apply_probe (init_backend descr_a) [probe_ok, probe_503, probe_ok]],
      index = 0, stickyMap = [''F'' \<mapsto> ''http://a'']\<rparr>"

section \<open>Round-robin selection with the cursor out of range\<close>

text \<open>
  C1. The claim is that a selection made while the cursor is at or beyond the size of
  the healthy subset does not raise, but wraps the cursor and returns an address.
  With backends a (healthy) and b (unhealthy) and the cursor at 1, \<open>chooseServer\<close>
  raises a TypeError and leaves the cursor at 1.
\<close>

theorem chooseServer_cursor_out_of_range_raises:
  "chooseServer shrunk_state = (Inl TypeError, shrunk_state)"
  by (simp add: chooseServer_def shrunk_state_def mk_backend_def)

section \<open>Facts about selection\<close>

lemma find_none_unhealthy:
  "\<forall>s\<in>set xs. \<not> healthy s \<Longrightarrow> find (\<lambda>s. url s = u \<and> healthy s) xs = None"
  by (induction xs) auto

lemma chooseServer_in_range:
  assumes "index st < length (filter healthy (servers st))"
  shows "chooseServer st =
           (Inr (url (filter healthy (servers st) ! index st)),
            st\<lparr>index := (index st + 1) mod length (filter healthy (servers st))\<rparr>)"
  using assms by (auto simp: chooseServer_def Let_def)

lemma chooseServer_n_in_range:
  assumes "index st < length (filter healthy (servers st))"
  shows "chooseServer_n k st =
           (map (\<lambda>i. Inr (url (filter healthy (servers st)
                   ! ((index st + i) mod length (filter healthy (servers st))))))
                [0..<k],
            st\<lparr>index := (index st + k) mod length (filter healthy (servers st))\<rparr>)"
  using assms
proof (induction k arbitrary: st)
  case 0
  then show ?case by simp
next
  case (Suc k)
  let ?alive = "filter healthy (servers st)"
  let ?N = "length ?alive"
  let ?st' = "st\<lparr>index := (index st + 1) mod ?N\<rparr>"
  have N: "0 < ?N" using Suc.prems by (cases ?alive) auto
  have c: "chooseServer st = (Inr (url (?alive ! index st)), ?st')"
    using Suc.prems by (rule chooseServer_in_range)
  have r: "index ?st' < length (filter healthy (servers ?st'))" using N by simp
  have m: "\<And>i. (Suc (index st) mod ?N + i) mod ?N = Suc (index st + i) mod ?N"
    by (metis add_Suc mod_add_left_eq)
  have l: "[0..<Suc k] = 0 # map Suc [0..<k]"
    by (simp add: upt_conv_Cons map_Suc_upt del: upt_Suc)
  show ?case
    unfolding chooseServer_n.simps c l
    using Suc.IH [OF r] Suc.prems
    by (simp add: m comp_def)
qed

lemma chooseServer_frame:
  "chooseServer st = (r, st') \<Longrightarrow> servers st' = servers st \<and> stickyMap st' = stickyMap st"
  by (auto simp: chooseServer_def Let_def split: if_splits)

lemma getStickyServer_Some:
  "getStickyServer st clientId = Some u \<Longrightarrow>
     stickyMap st clientId = Some u \<and> (\<exists>s\<in>set (servers st). url s = Some u \<and> healthy s)"
  by (auto simp: getStickyServer_def find_Some_iff split: option.splits)

lemma getStickyServer_hit:
  assumes "stickyMap st clientId = Some u" and "\<exists>s\<in>set (servers st). url s = Some u \<and> healthy s"
  shows "getStickyServer st clientId = Some u"
proof -
  from assms(2) have "find (\<lambda>s. url s = Some u \<and> healthy s) (servers st) \<noteq> None"
    by (auto simp: find_None_iff)
  then obtain a where a: "find (\<lambda>s. url s = Some u \<and> healthy s) (servers st) = Some a" by auto
  then have "url a = Some u" by (auto simp: find_Some_iff)
  with a assms(1) show ?thesis by (simp add: getStickyServer_def)
qed

lemma getStickyServer_miss:
  assumes "\<not> (\<exists>s\<in>set (servers st). url s = Some u \<and> healthy s)"
    and "stickyMap st clientId = Some u"
  shows "getStickyServer st clientId = None"
proof -
  from assms(1) have "find (\<lambda>s. url s = Some u \<and> healthy s) (servers st) = None"
    by (auto simp: find_None_iff)
  with assms(2) show ?thesis by (simp add: getStickyServer_def)
qed

text \<open>
  A resolution that returns an address leaves the fingerprint bound to that address:
  on a sticky hit it already was, after a round-robin pick it has just been recorded.
\<close>

lemma resolveTarget_records:
  assumes "resolveTarget st clientId = (Inr target, st1)" and "\<not> falsy target"
  shows "stickyMap st1 clientId = target \<and> servers st1 = servers st"
proof (cases "falsy (getStickyServer st clientId)")
  case False
  with assms have e: "target = getStickyServer st clientId" "st1 = st"
    by (auto simp: resolveTarget_def Let_def)
  from False obtain u where u: "getStickyServer st clientId = Some u"
    by (auto simp: falsy_def)
  from getStickyServer_Some [OF u] e u show ?thesis by simp
next
  case True
  with assms obtain st' where c: "chooseServer st = (Inr target, st')"
    and s: "st1 = st'\<lparr>stickyMap := (stickyMap st')(clientId \<mapsto> the target)\<rparr>"
    by (auto simp: resolveTarget_def Let_def split: prod.splits sum.splits if_splits)
  from assms(2) obtain t where t: "target = Some t" by (auto simp: falsy_def)
  from chooseServer_frame [OF c] s t show ?thesis by simp
qed

text \<open>Sticky hits are stable while the bound backend is healthy.\<close>

lemma resolveTarget_sticky_hit:
  assumes "stickyMap st clientId = Some u" and "u \<noteq> []"
    and "\<exists>s\<in>set (servers st). url s = Some u \<and> healthy s"
  shows "resolveTarget st clientId = (Inr (Some u), st)"
  using getStickyServer_hit [OF assms(1,3)] assms(2)
  by (simp add: resolveTarget_def falsy_def)

text \<open>
  When the bound backend is not healthy and the cursor is inside the healthy subset,
  the resolution returns another, healthy backend and records it.
\<close>

lemma resolveTarget_sticky_miss_in_range:
  assumes "stickyMap st clientId = Some u"
    and "\<not> (\<exists>s\<in>set (servers st). url s = Some u \<and> healthy s)"
    and "index st < length (filter healthy (servers st))"
    and "\<not> falsy (url (filter healthy (servers st) ! index st))"
  shows "resolveTarget st clientId =
           (Inr (url (filter healthy (servers st) ! index st)),
            st\<lparr>index := (index st + 1) mod length (filter healthy (servers st)),
               stickyMap := (stickyMap st)(clientId \<mapsto>
                               the (url (filter healthy (servers st) ! index st)))\<rparr>)
       \<and> url (filter healthy (servers st) ! index st) \<noteq> Some u"
proof -
  let ?a = "filter healthy (servers st) ! index st"
  have m: "?a \<in> set (filter healthy (servers st))" using assms(3) by (rule nth_mem)
  then have ne: "url ?a \<noteq> Some u" using assms(2) by auto
  have r: "resolveTarget st clientId =
           (Inr (url ?a),
            st\<lparr>index := (index st + 1) mod length (filter healthy (servers st)),
               stickyMap := (stickyMap st)(clientId \<mapsto> the (url ?a))\<rparr>)"
    using assms(4)
    by (simp add: resolveTarget_def getStickyServer_miss [OF assms(2,1)]
        chooseServer_in_range [OF assms(3)] falsy_def)
  from r ne show ?thesis by simp
qed

section \<open>Facts about the dispatcher\<close>

text \<open>
  What \<open>send()\<close> does when its first forward fails: one \<open>chooseServer\<close>, and, if
  that returns, one more forward, whose failure ends the request with 500.
\<close>

lemma send_first_forward_fails:
  assumes "\<not> fwd False target" and "target \<noteq> None"
  shows "send fwd False target st issued =
           (case chooseServer st of
              (Inl e, st') \<Rightarrow> (Uncaught e, issued @ [target], st')
            | (Inr None, st') \<Rightarrow> (Uncaught NoTargetError, issued @ [target], st')
            | (Inr (Some t), st') \<Rightarrow>
                (if fwd True (Some t) then Proxied else Responded 500,
                 issued @ [target, Some t], st'))"
  using assms by (simp add: Let_def split: prod.splits sum.splits option.splits)

lemma dispatch_retries_once_when_choice_returns:
  assumes "resolveTarget st clientId = (Inr target, st1)"
    and "\<not> falsy target"
    and "\<not> fwd False target"
    and "chooseServer st1 = (Inr (Some t), st')"
  shows "dispatch fwd st clientId =
           (if fwd True (Some t) then Proxied else Responded 500, [target, Some t], st')"
proof -
  have n: "target \<noteq> None" using assms(2) by (auto simp: falsy_def)
  have "dispatch fwd st clientId = send fwd False target st1 []"
    using assms(1,2) by (simp add: dispatch_def)
  also have "\<dots> = (if fwd True (Some t) then Proxied else Responded 500, [target, Some t], st')"
    unfolding send_first_forward_fails [of fwd target, OF assms(3) n] assms(4) by simp
  finally show ?thesis .
qed

section \<open>Facts about the history window\<close>

lemma last_shift_over_20: "last (shift_over_20 (h @ [x])) = x"
  by (cases h) (simp_all add: shift_over_20_def)

lemma history_apply_probe:
  "history (apply_probe s p) = shift_over_20 (history s @ [pushed p])"
  by (cases "p_result p")
     (simp_all add: apply_probe_def pushed_def probe_done_def on_response_def on_error_def Let_def)

lemma shift_over_20_drop:
  "length h \<le> 20 \<Longrightarrow> shift_over_20 (h @ [x]) = drop (length (h @ [x]) - 20) (h @ [x])"
  by (cases h) (auto simp: shift_over_20_def drop_Cons')

lemma drop_window_snoc:
  "drop (length (drop (length xs - 20) xs @ [x]) - 20) (drop (length xs - 20) xs @ [x])
     = drop (length (xs @ [x]) - 20) (xs @ [x])"
proof (cases "length xs < 20")
  case True
  then show ?thesis by simp
next
  case False
  then have n: "20 \<le> length xs" by simp
  then have l: "length (drop (length xs - 20) xs) = 20" by simp
  have e: "Suc (length xs - 20) = length xs - 19" using n by arith
  have "drop (length (drop (length xs - 20) xs @ [x]) - 20) (drop (length xs - 20) xs @ [x])
          = drop 1 (drop (length xs - 20) xs) @ [x]"
    using l by simp
  also have "\<dots> = drop (length xs - 19) xs @ [x]"
    by (simp add: e)
  also have "\<dots> = drop (length (xs @ [x]) - 20) (xs @ [x])"
    using n by simp
  finally show ?thesis .
qed

lemma history_foldl_apply_probe:
  "length (history s) \<le> 20 \<Longrightarrow>
   history (foldl apply_probe s ps) =
     drop (length (history s @ map pushed ps) - 20) (history s @ map pushed ps)"
proof (induction ps rule: rev_induct)
  case Nil
  then show ?case by simp
next
  case (snoc p ps)
  let ?full = "history s @ map pushed ps"
  let ?h = "history (foldl apply_probe s ps)"
  have h: "?h = drop (length ?full - 20) ?full" using snoc by simp
  then have len: "length ?h \<le> 20" by simp
  have "history (foldl apply_probe s (ps @ [p])) = shift_over_20 (?h @ [pushed p])"
    by (simp add: history_apply_probe)
  also have "\<dots> = drop (length (?h @ [pushed p]) - 20) (?h @ [pushed p])"
    using len by (rule shift_over_20_drop)
  also have "\<dots> = drop (length (?full @ [pushed p]) - 20) (?full @ [pushed p])"
    unfolding h by (rule drop_window_snoc)
  finally show ?case by simp
qed

section \<open>How the cursor gets out of range\<close>

text \<open>
  Two backends are up and client F is served, which moves the cursor to 1. The next
  probe cycle finds b down. The cursor now equals the size of the healthy subset: the
  next selection raises, and so does the retry of a request of F whose forward to a
  fails.
\<close>

lemma shrunk_cursor_reachable:
  "(let st1 = snd (snd (dispatch always_ok two_up_state ''F''));
        st2 = snd (checkHealth parses_http a_up_rest_down st1)
    in map (\<lambda>s. (url s, healthy s)) (servers st2) = [(Some ''http://a'', True), (Some ''http://b'', False)]
     \<and> index st2 = 1
     \<and> stickyMap st2 ''F'' = Some ''http://a''
     \<and> fst (chooseServer st2) = Inl TypeError
     \<and> fst (dispatch always_fails st2 ''F'') = Uncaught TypeError
     \<and> fst (snd (dispatch always_fails st2 ''F'')) = [Some ''http://a''])"
  by (simp add: dispatch_def resolveTarget_def getStickyServer_def falsy_def chooseServer_def
      checkHealth_def apply_probe_def probe_done_def on_response_def on_error_def
      a_up_rest_down_def probe_ok_def probe_err_def parses_http_def
      two_up_state_def mk_backend_def always_ok_def always_fails_def Let_def)

text \<open>
  Three backends are up; client G is served by a and client F by b, which moves the
  cursor to 2. The next probe cycle finds b and c down. The resolution for F then
  raises and F stays bound to b.
\<close>

lemma sticky_lost_reachable:
  "(let st1 = snd (snd (dispatch always_ok three_url_state ''G''));
        st2 = snd (snd (dispatch always_ok st1 ''F''));
        st3 = snd (checkHealth parses_http a_up_rest_down st2)
    in map (\<lambda>s. (url s, healthy s)) (servers st3) = [(Some ''http://a'', True), (Some ''http://b'', False), (Some ''http://c'', False)]
     \<and> index st3 = 2
     \<and> stickyMap st3 ''F'' = Some ''http://b''
     \<and> fst (resolveTarget st3 ''F'') = Inl TypeError
     \<and> stickyMap (snd (resolveTarget st3 ''F'')) ''F'' = Some ''http://b'')"
  by (simp add: dispatch_def resolveTarget_def getStickyServer_def falsy_def chooseServer_def
      checkHealth_def apply_probe_def probe_done_def on_response_def on_error_def
      a_up_rest_down_def probe_ok_def probe_err_def parses_http_def
      three_url_state_def mk_backend_def always_ok_def Let_def)

section \<open>The retry after a failed forward\<close>

text \<open>
  C2. The claim is that every dispatch whose first forward fails picks a fresh target
  by round-robin, forwards once more, and answers 500 when that forward fails too.
  Client F is bound to a, the only healthy backend of two, and the cursor is 1. The
  first forward goes to a and fails; the retry's \<open>chooseServer\<close> raises a TypeError,
  so no second forward is issued and no 500 is sent.
\<close>

theorem dispatch_retry_raises_cursor_out_of_range:
  "dispatch always_fails sticky_shrunk_state ''F''
     = (Uncaught TypeError, [Some ''http://a''], sticky_shrunk_state)"
  by (simp add: dispatch_def resolveTarget_def getStickyServer_def falsy_def chooseServer_def
      sticky_shrunk_state_def mk_backend_def always_fails_def Let_def)

section \<open>Sticky resolution after the bound backend goes down\<close>

text \<open>
  C3. The claim is that once the backend bound to a fingerprint is unhealthy, the next
  resolution returns a different healthy backend and records it, or none when nothing
  is healthy. Client F is bound to b; b and c are down, a is up and the cursor is 2.
  The resolution raises a TypeError: it returns no backend, although a is healthy, and
  F stays bound to b.
\<close>

theorem resolveTarget_raises_after_sticky_backend_down:
  "resolveTarget sticky_lost_state ''F'' = (Inl TypeError, sticky_lost_state)"
  by (simp add: resolveTarget_def getStickyServer_def falsy_def chooseServer_def
      sticky_lost_state_def mk_backend_def Let_def)

section \<open>No healthy backend\<close>

text \<open>
  C4. When no backend of the registry is healthy, the sticky lookup and the round-robin
  selection both give nothing, the resolution returns none and leaves the state as it
  was, and the dispatch answers 503 with no forward issued, whatever the forwarder
  would do.
\<close>

theorem dispatch_503_when_none_healthy:
  assumes "\<forall>s\<in>set (servers st). \<not> healthy s"
  shows "getStickyServer st clientId = None
       \<and> chooseServer st = (Inr None, st)
       \<and> resolveTarget st clientId = (Inr None, st)
       \<and> dispatch fwd st clientId = (Responded 503, [], st)"
proof -
  have f: "filter healthy (servers st) = []" using assms by (simp add: filter_empty_conv)
  have g: "getStickyServer st clientId = None"
    using find_none_unhealthy[OF assms] by (simp add: getStickyServer_def split: option.splits)
  have c: "chooseServer st = (Inr None, st)" by (simp add: chooseServer_def f)
  have r: "resolveTarget st clientId = (Inr None, st)"
    by (simp add: resolveTarget_def g c falsy_def)
  have d: "dispatch fwd st clientId = (Responded 503, [], st)"
    by (simp add: dispatch_def r falsy_def)
  from g c r d show ?thesis by simp
qed

theorem dispatch_503_when_none_healthy_witness:
  "map healthy (servers all_down_state) = [False, False]
   \<and> getStickyServer all_down_state ''F'' = None
   \<and> chooseServer all_down_state = (Inr None, all_down_state)
   \<and> resolveTarget all_down_state ''F'' = (Inr None, all_down_state)
   \<and> dispatch always_fails all_down_state ''F'' = (Responded 503, [], all_down_state)"
proof -
  have h: "\<forall>s\<in>set (servers all_down_state). \<not> healthy s"
    by (simp add: all_down_state_def mk_backend_def)
  have m: "map healthy (servers all_down_state) = [False, False]"
    by (simp add: all_down_state_def mk_backend_def)
  show ?thesis
    using m dispatch_503_when_none_healthy [OF h, of "''F''" always_fails] by simp
qed

section \<open>Round-robin order\<close>

text \<open>
  C5. With the cursor inside the healthy subset (N backends, in registry order) and
  no change of health between the calls, the k-th of any number of consecutive
  selections returns the healthy backend at position (cursor + k) mod N. So N
  selections return the healthy subset rotated to start at the cursor: each backend
  once, in registry order (cyclically), after which the cursor is back where it was
  and the cycle repeats. With [A, B, C] and the cursor at 0, five selections return
  A, B, C, A, B.
\<close>

theorem round_robin_visits_each_once_in_order:
  assumes "index st < length (filter healthy (servers st))"
  shows "fst (chooseServer_n k st) =
           map (\<lambda>i. Inr (url (filter healthy (servers st)
                   ! ((index st + i) mod length (filter healthy (servers st))))))
               [0..<k]
       \<and> fst (chooseServer_n (length (filter healthy (servers st))) st) =
           map (\<lambda>s. Inr (url s)) (rotate (index st) (filter healthy (servers st)))
       \<and> servers (snd (chooseServer_n k st)) = servers st
       \<and> index (snd (chooseServer_n (length (filter healthy (servers st))) st)) = index st"
proof -
  let ?alive = "filter healthy (servers st)"
  let ?N = "length ?alive"
  have a: "fst (chooseServer_n k st) =
           map (\<lambda>i. Inr (url (?alive ! ((index st + i) mod ?N)))) [0..<k]"
    by (simp add: chooseServer_n_in_range [OF assms])
  have b: "fst (chooseServer_n ?N st) =
           map (\<lambda>s. Inr (url s)) (rotate (index st) ?alive)"
  proof (rule nth_equalityI)
    show "length (fst (chooseServer_n ?N st)) =
          length (map (\<lambda>s. Inr (url s)) (rotate (index st) ?alive))"
      by (simp add: chooseServer_n_in_range [OF assms])
  next
    fix i assume "i < length (fst (chooseServer_n ?N st))"
    then have i: "i < ?N" by (simp add: chooseServer_n_in_range [OF assms])
    then show "fst (chooseServer_n ?N st) ! i =
          map (\<lambda>s. Inr (url s)) (rotate (index st) ?alive) ! i"
      by (simp add: chooseServer_n_in_range [OF assms] nth_rotate add.commute)
  qed
  have c: "servers (snd (chooseServer_n k st)) = servers st"
    by (simp add: chooseServer_n_in_range [OF assms])
  have d: "index (snd (chooseServer_n ?N st)) = index st"
    using assms by (simp add: chooseServer_n_in_range [OF assms])
  from a b c d show ?thesis by simp
qed

theorem round_robin_visits_each_once_in_order_witness:
  "index three_up_state < length (filter healthy (servers three_up_state))
   \<and> fst (chooseServer_n 5 three_up_state) =
       [Inr (Some ''A''), Inr (Some ''B''), Inr (Some ''C''), Inr (Some ''A''), Inr (Some ''B'')]"
proof -
  have h: "index three_up_state < length (filter healthy (servers three_up_state))"
    by (simp add: three_up_state_def mk_backend_def)
  have u: "[0..<5] = [0, 1, 2, 3, 4::nat]" by (simp add: upt_rec)
  show ?thesis
    using h round_robin_visits_each_once_in_order [OF h, of 5]
    by (simp add: three_up_state_def mk_backend_def u)
qed

section \<open>Probe outcomes\<close>

text \<open>
  The later form of \<open>checkHealth\<close> does what the specification says. A completed
  probe counts as a success exactly when it ended in a response whose status is at
  least 200 and below 300. On success the backend is marked healthy, the time from the
  probe's start is stored as its response time, the success counter goes up by one and
  the time is pushed onto the history. On any other status and on a transport error
  the backend is marked unhealthy, the response time is cleared, the failure counter
  goes up by one and the number 0 is pushed. The time of the last check is set in both
  cases, and the address and region are untouched.
\<close>

lemma probe_done_classifies_and_records:
  "(let ok = (case r of Response statusCode \<Rightarrow> 200 \<le> statusCode \<and> statusCode < 300
                      | TransportError \<Rightarrow> False);
        s' = probe_done start now stamp r s
    in healthy s' = ok
     \<and> responseTime s' = (if ok then Some (now - start) else None)
     \<and> uptime s' = (if ok then uptime s + 1 else uptime s)
     \<and> downtime s' = (if ok then downtime s else downtime s + 1)
     \<and> history s' = shift_over_20 (history s @ [if ok then Ms (now - start) else Ms 0])
     \<and> last (history s') = (if ok then Ms (now - start) else Ms 0)
     \<and> lastCheck s' = Some stamp
     \<and> url s' = url s \<and> region s' = region s)"
  by (cases r)
     (simp_all add: probe_done_def on_response_def on_error_def Let_def last_shift_over_20)

text \<open>
  The form in index.js runs its success branch on every response: whatever the status,
  the backend is marked healthy, the success counter goes up and the time is pushed.
\<close>

lemma probe_done_index_js_any_response:
  "(let s' = probe_done_index_js start now stamp (Response statusCode) s
    in healthy s'
     \<and> responseTime s' = Some (now - start)
     \<and> uptime s' = uptime s + 1
     \<and> downtime s' = downtime s
     \<and> last (history s') = Ms (now - start)
     \<and> lastCheck s' = Some stamp)"
  by (simp add: probe_done_index_js_def on_response_index_js_def Let_def last_shift_over_20)

text \<open>
  C6. The claim is that a completed probe counts as a success if and only if the
  response status is in [200, 300), and that any other status marks the backend
  unhealthy, clears its response time, increments the failure counter and pushes the
  down marker. A backend in its initial state answers the probe with status 503 after
  7 ms. In index.js the backend is then marked healthy, with response time 7, success
  counter 1, failure counter 0 and 7 pushed onto the history. The later form of
  \<open>checkHealth\<close> marks it unhealthy at the same input, as the claim says.
\<close>

theorem index_js_counts_503_as_success:
  "(let s' = probe_done_index_js 6000 6007 ''10:00:05'' (Response 503) (init_backend descr_a)
    in healthy s' \<and> responseTime s' = Some 7 \<and> uptime s' = 1 \<and> downtime s' = 0
     \<and> last (history s') = Ms 7)
   \<and> (let s' = probe_done 6000 6007 ''10:00:05'' (Response 503) (init_backend descr_a)
      in \<not> healthy s' \<and> responseTime s' = None \<and> uptime s' = 0 \<and> downtime s' = 1
       \<and> last (history s') = Ms 0)"
  by (simp add: probe_done_index_js_def on_response_index_js_def probe_done_def
      on_response_def Let_def last_shift_over_20 init_backend_def)

section \<open>The history window\<close>

text \<open>
  C7. Starting from a history of at most 20 entries (the initial one has exactly 20),
  after any sequence of completed probes the history has at most 20 entries and is the
  last 20 of the old entries followed by the pushed ones, in order. In particular a
  probe on a full history removes the oldest entry only and puts its own entry last.
\<close>

theorem history_bounded_fifo:
  assumes "length (history s) \<le> 20"
  shows "length (history (foldl apply_probe s ps)) \<le> 20
       \<and> history (foldl apply_probe s ps) =
           drop (length (history s @ map pushed ps) - 20) (history s @ map pushed ps)
       \<and> (length (history s) = 20 \<longrightarrow>
            history (apply_probe s p) = tl (history s) @ [pushed p])"
proof -
  have a: "history (foldl apply_probe s ps) =
           drop (length (history s @ map pushed ps) - 20) (history s @ map pushed ps)"
    using assms by (rule history_foldl_apply_probe)
  have b: "length (history (foldl apply_probe s ps)) \<le> 20"
    unfolding a by simp
  have c: "length (history s) = 20 \<longrightarrow>
            history (apply_probe s p) = tl (history s) @ [pushed p]"
    by (cases "history s") (auto simp: history_apply_probe shift_over_20_def)
  from a b c show ?thesis by simp
qed

theorem history_bounded_fifo_witness:
  "length (history (init_backend descr_a)) \<le> 20
   \<and> length (history (init_backend descr_a)) = 20
   \<and> history (foldl apply_probe (init_backend descr_a) [probe_ok, probe_503, probe_err])
       = replicate 17 Blank @ [Ms 12, Ms 0, Ms 0]
   \<and> history (apply_probe (init_backend descr_a) probe_ok) = replicate 19 Blank @ [Ms 12]"
proof -
  have h: "length (history (init_backend descr_a)) \<le> 20"
    by (simp add: init_backend_def initial_history_def)
  have r: "replicate 20 Blank = Blank # replicate 19 Blank"
          "replicate 19 Blank = Blank # Blank # replicate 17 Blank"
    by (simp_all add: numeral_eq_Suc)
  show ?thesis
    using h history_bounded_fifo [OF h, of "[probe_ok, probe_503, probe_err]" probe_ok]
    by (simp add: init_backend_def initial_history_def pushed_def
        probe_ok_def probe_503_def probe_err_def r)
qed

section \<open>Reload\<close>

text \<open>
  C8. Whatever the state before, a reload from an array (of descriptors, or of
  anything else) raises nothing and leaves a registry with one backend per element, in
  order and under the element's address, each of them in the initial state: not
  healthy, no response time, no last check, both counters zero and a history of 20
  blanks. The cursor and the sticky table are not touched.
\<close>

theorem reload_resets_every_backend:
  "fst (reload st (JsonArray data)) = None
   \<and> index (snd (reload st (JsonArray data))) = index st
   \<and> stickyMap (snd (reload st (JsonArray data))) = stickyMap st
   \<and> map url (servers (snd (reload st (JsonArray data)))) = map e_url data
   \<and> (\<forall>s \<in> set (servers (snd (reload st (JsonArray data)))).
         healthy s = False \<and> responseTime s = None \<and> lastCheck s = None
         \<and> uptime s = 0 \<and> downtime s = 0 \<and> history s = replicate 20 Blank)"
  by (auto simp: reload_def loadServers_def init_backend_def initial_history_def comp_def)

theorem reload_resets_every_backend_witness:
  "healthy (hd (servers busy_state)) \<and> url (hd (servers busy_state)) = Some ''http://a''
   \<and> uptime (hd (servers busy_state)) = 2
   \<and> servers (snd (reload busy_state (JsonArray [descr_a])))
       = [\<lparr>url = Some ''http://a'', region = Some ''eu'', healthy = False, responseTime = None,
           lastCheck = None, uptime = 0, downtime = 0, history = replicate 20 Blank\<rparr>]"
proof -
  have b: "healthy (hd (servers busy_state)) \<and> url (hd (servers busy_state)) = Some ''http://a''
   \<and> uptime (hd (servers busy_state)) = 2"
    by (simp add: busy_state_def apply_probe_def probe_done_def on_response_def on_error_def
        probe_ok_def probe_503_def init_backend_def descr_a_def Let_def)
  show ?thesis
    using reload_resets_every_backend [of busy_state "[descr_a]"] b
    by (simp add: reload_def loadServers_def init_backend_def descr_a_def initial_history_def)
qed

text \<open>
  C9, as stated: on every malformed backend list the reload leaves the previous
  registry in place, and the failure is not fatal to the process. Neither half holds
  on every malformed input. On a file that is not JSON, \<open>loadServers\<close> throws a
  SyntaxError inside the \<open>fs.watch\<close> callback; nothing in the program catches it
  (there is no \<open>try\<close> and no \<open>uncaughtException\<close> handler), so it leaves the
  callback uncaught, which ends a Node process. On an array whose one element is not
  a descriptor nothing is raised and the registry, which held the backend a, is
  replaced by one backend without an address.
\<close>

theorem reload_malformed_uncaught_or_applied:
  "reload busy_state NotJson = (Some SyntaxError, busy_state)
   \<and> malformed (JsonArray [no_descriptor])
   \<and> fst (reload busy_state (JsonArray [no_descriptor])) = None
   \<and> map url (servers busy_state) = [Some ''http://a'']
   \<and> map url (servers (snd (reload busy_state (JsonArray [no_descriptor])))) = [None]"
  by (simp add: reload_def loadServers_def malformed_def is_descriptor_def no_descriptor_def
      init_backend_def busy_state_def apply_probe_def probe_done_def on_response_def
      probe_ok_def probe_503_def descr_a_def Let_def)

text \<open>
  C9, amended: a reload never mixes the old registry with the new list, and it touches
  neither the cursor nor the sticky table. On a malformed input that is no array (the
  file cannot be read, is not JSON, or is JSON of another kind) \<open>loadServers\<close>
  raises before \<open>servers\<close> is assigned: the state is exactly as before and the
  exception leaves the reload callback uncaught. On a malformed input that is an
  array nothing is validated and nothing is raised: the whole registry is replaced
  by one backend per element, each in the initial state, and at least one of them
  has no address.
\<close>

theorem reload_malformed_all_or_nothing:
  assumes "malformed file"
  shows "(case file of
            JsonArray data \<Rightarrow>
              fst (reload st file) = None
              \<and> servers (snd (reload st file)) = map init_backend data
              \<and> list_ex (\<lambda>s. url s = None) (servers (snd (reload st file)))
              \<and> list_all (\<lambda>s. \<not> healthy s \<and> uptime s = 0 \<and> downtime s = 0
                             \<and> history s = replicate 20 Blank)
                    (servers (snd (reload st file)))
          | _ \<Rightarrow>
              fst (reload st file) =
                Some (case file of Unreadable \<Rightarrow> FsError | NotJson \<Rightarrow> SyntaxError
                                 | _ \<Rightarrow> TypeError)
              \<and> snd (reload st file) = st)
       \<and> index (snd (reload st file)) = index st
       \<and> stickyMap (snd (reload st file)) = stickyMap st"
proof (cases "file")
  case (JsonArray data)
  with assms have "\<not> list_all is_descriptor data" by (simp add: malformed_def)
  then have "list_ex (\<lambda>s. url s = None) (map init_backend data)"
    by (induction data) (auto simp: is_descriptor_def init_backend_def)
  moreover have "list_all (\<lambda>s. \<not> healthy s \<and> uptime s = 0 \<and> downtime s = 0
                             \<and> history s = replicate 20 Blank) (map init_backend data)"
    by (induction data) (auto simp: init_backend_def initial_history_def)
  ultimately show ?thesis
    using JsonArray by (simp add: reload_def loadServers_def)
qed (simp_all add: reload_def loadServers_def)

theorem reload_malformed_all_or_nothing_witness:
  "malformed (JsonArray [descr_a, no_descriptor])
   \<and> map url (servers (snd (reload busy_state (JsonArray [descr_a, no_descriptor]))))
       = [Some ''http://a'', None]
   \<and> map healthy (servers (snd (reload busy_state (JsonArray [descr_a, no_descriptor]))))
       = [False, False]
   \<and> malformed Unreadable
   \<and> reload busy_state Unreadable = (Some FsError, busy_state)"
proof -
  have m: "malformed (JsonArray [descr_a, no_descriptor])"
    by (simp add: malformed_def is_descriptor_def descr_a_def no_descriptor_def)
  have u: "malformed Unreadable" by (simp add: malformed_def)
  have r: "reload busy_state Unreadable = (Some FsError, busy_state)"
    using reload_malformed_all_or_nothing [OF u, of busy_state]
    by (simp add: prod_eq_iff)
  show ?thesis
    using m u r reload_malformed_all_or_nothing [OF m, of busy_state]
    by (simp add: init_backend_def descr_a_def no_descriptor_def)
qed

section \<open>The retry leaves the sticky table alone\<close>

text \<open>
  C10. Take a dispatch whose resolution returned an address and whose first forward
  failed. Whatever the retry does (another backend answers, the second forward fails,
  the selection raises, or it gives no target), the sticky table after the dispatch is the one the
  resolution left, in which the client's fingerprint is bound to the address resolved
  first; the registry is untouched. Hence in any later registry where that address
  belongs to a healthy backend, the next resolution for the client returns it again.
\<close>

theorem retry_target_not_recorded:
  assumes "resolveTarget st clientId = (Inr target, st1)"
    and "\<not> falsy target"
    and "\<not> fwd False target"
  shows "(let st2 = snd (snd (dispatch fwd st clientId)) in
          stickyMap st2 = stickyMap st1
        \<and> stickyMap st2 clientId = target
        \<and> servers st2 = servers st
        \<and> (\<forall>srv. (\<exists>s\<in>set srv. url s = target \<and> healthy s) \<longrightarrow>
              resolveTarget (st2\<lparr>servers := srv\<rparr>) clientId
                = (Inr target, st2\<lparr>servers := srv\<rparr>)))"
proof -
  define st2 where "st2 = snd (snd (dispatch fwd st clientId))"
  from assms(2) obtain t where t: "target = Some t" "t \<noteq> []" by (auto simp: falsy_def)
  then have n: "target \<noteq> None" by simp
  have r: "stickyMap st1 clientId = target" "servers st1 = servers st"
    using resolveTarget_records [OF assms(1,2)] by simp_all
  have d: "dispatch fwd st clientId = send fwd False target st1 []"
    using assms(1,2) by (simp add: dispatch_def)
  obtain res st' where c: "chooseServer st1 = (res, st')" by (cases "chooseServer st1")
  have st2: "st2 = st'"
    unfolding st2_def d send_first_forward_fails [of fwd target, OF assms(3) n] c
    by (cases res) (simp_all split: option.splits)
  have f: "servers st2 = servers st1" "stickyMap st2 = stickyMap st1"
    using chooseServer_frame [OF c] st2 by simp_all
  have g: "resolveTarget (st2\<lparr>servers := srv\<rparr>) clientId = (Inr target, st2\<lparr>servers := srv\<rparr>)"
    if h: "\<exists>s\<in>set srv. url s = target \<and> healthy s" for srv
  proof -
    have "getStickyServer (st2\<lparr>servers := srv\<rparr>) clientId = Some t"
      using h t f r by (intro getStickyServer_hit) simp_all
    then show ?thesis using t by (simp add: resolveTarget_def falsy_def)
  qed
  show ?thesis
    unfolding st2_def [symmetric] Let_def using f r g by simp
qed

theorem retry_target_not_recorded_witness:
  "resolveTarget two_up_state ''F''
     = (Inr (Some ''http://a''), two_up_state\<lparr>index := 1, stickyMap := [''F'' \<mapsto> ''http://a'']\<rparr>)
   \<and> \<not> falsy (Some ''http://a'')
   \<and> \<not> fails_once False (Some ''http://a'')
   \<and> fst (dispatch fails_once two_up_state ''F'') = Proxied
   \<and> fst (snd (dispatch fails_once two_up_state ''F'')) = [Some ''http://a'', Some ''http://b'']
   \<and> stickyMap (snd (snd (dispatch fails_once two_up_state ''F''))) ''F'' = Some ''http://a''
   \<and> (\<exists>s\<in>set (servers two_up_state). url s = Some ''http://a'' \<and> healthy s)
   \<and> fst (resolveTarget (snd (snd (dispatch fails_once two_up_state ''F''))) ''F'')
       = Inr (Some ''http://a'')"
proof -
  have a: "resolveTarget two_up_state ''F''
     = (Inr (Some ''http://a''), two_up_state\<lparr>index := 1, stickyMap := [''F'' \<mapsto> ''http://a'']\<rparr>)"
    by (simp add: resolveTarget_def getStickyServer_def chooseServer_def falsy_def
        two_up_state_def mk_backend_def Let_def)
  have b: "\<not> falsy (Some ''http://a'')" by (simp add: falsy_def)
  have c: "\<not> fails_once False (Some ''http://a'')" by (simp add: fails_once_def)
  have d: "dispatch fails_once two_up_state ''F'' =
     (Proxied, [Some ''http://a'', Some ''http://b''],
      two_up_state\<lparr>index := 0, stickyMap := [''F'' \<mapsto> ''http://a'']\<rparr>)"
    unfolding dispatch_def a
    by (simp add: falsy_def fails_once_def chooseServer_def
        two_up_state_def mk_backend_def Let_def)
  have e: "\<exists>s\<in>set (servers two_up_state). url s = Some ''http://a'' \<and> healthy s"
    by (simp add: two_up_state_def mk_backend_def)
  have f: "fst (resolveTarget (snd (snd (dispatch fails_once two_up_state ''F''))) ''F'')
       = Inr (Some ''http://a'')"
    unfolding d
    by (simp add: resolveTarget_def getStickyServer_def falsy_def
        two_up_state_def mk_backend_def Let_def)
  show ?thesis
    using a b c e f retry_target_not_recorded [where fwd = fails_once, OF a b c]
    by (simp add: d Let_def)
qed

end
